theory Spec2Isabelle
  imports Complex_Main "HOL-Library.Multiset" "HOL-Library.Log_Nat"
begin

section \<open>Documents and collections\<close>

text \<open>
  The store holds four collections of documents: \<open>movies\<close>, \<open>ratings\<close>, \<open>tags\<close> and
  \<open>links\<close> (server/db/import.js, parseMovies, parseRatings, parseTags, parseLinks).
  A collection is the list of its documents in natural order.

  A JavaScript number is an IEEE double. A finite double is modelled by its numeric value,
  a rational, so comparisons are exact; \<open>NaN\<close> and the two infinities are kept apart.
  Sums, quotients and products are rounded to the nearest double (\<open>round_double\<close> below)
  where the code computes them before using the result. The last quotient of a computation
  whose result is only stored is kept as the fraction it is: \<open>Num (413 / 100)\<close> stands for the
  double nearest to 4.13, as the literal \<open>4.13\<close> does. Integers (\<open>movieId\<close>, \<open>userId\<close>,
  timestamps) are kept exact.
\<close>

datatype jsnum = Num rat | NaN | PosInfinity | NegInfinity

record movie =
  movieId :: int
  title :: string
  year :: "int option"
  genres :: "string list"
  averageRating :: jsnum
  ratingCount :: nat

text \<open>\<open>r_id\<close> is the \<open>_id\<close> the store gives to every document of \<open>ratings\<close>.\<close>

record rating_doc =
  r_id :: nat
  r_userId :: int
  r_movieId :: int
  r_rating :: rat
  r_timestamp :: int

record tag_doc =
  t_userId :: int
  t_movieId :: int
  t_tag :: string
  t_timestamp :: int

record link_doc =
  l_movieId :: int
  l_imdbId :: "string option"
  l_tmdbId :: "int option"

record db =
  movies :: "movie list"
  ratings :: "rating_doc list"
  tags :: "tag_doc list"
  links :: "link_doc list"

section \<open>JavaScript built-ins used by the code\<close>

text \<open>
  \<open>parseInt(string)\<close> with no radix (ECMAScript, parseInt): leading white space is
  skipped, one sign is read, a \<open>0x\<close>/\<open>0X\<close> prefix selects radix 16, and the longest prefix
  of digits of the radix is the value; with no digit the result is \<open>NaN\<close>, here \<open>None\<close>.
  Strings are byte strings, so only the ASCII white space characters are recognised.
\<close>

definition StrWhiteSpaceChar :: "char \<Rightarrow> bool" where
  "StrWhiteSpaceChar c \<longleftrightarrow>
     c \<in> set [CHR 0x09, CHR 0x0A, CHR 0x0B, CHR 0x0C, CHR 0x0D, CHR 0x20]"

definition digitValue :: "char \<Rightarrow> nat option" where
  "digitValue =
     map_of (zip ''0123456789abcdefghijklmnopqrstuvwxyz'' [0..<36] @
             zip ''ABCDEFGHIJKLMNOPQRSTUVWXYZ'' [10..<36])"

definition radixDigit :: "nat \<Rightarrow> char \<Rightarrow> nat option" where
  "radixDigit R c =
     (case digitValue c of
        None \<Rightarrow> None
      | Some d \<Rightarrow> if d < R then Some d else None)"

definition parseInt :: "string \<Rightarrow> int option" where
  "parseInt inputString =
     (let S = dropWhile StrWhiteSpaceChar inputString;
          sign = (if S \<noteq> [] \<and> hd S = CHR ''-'' then - 1 else 1 :: int);
          S1 = (if S \<noteq> [] \<and> (hd S = CHR ''+'' \<or> hd S = CHR ''-'') then tl S else S);
          stripPrefix = (take 2 S1 = ''0x'' \<or> take 2 S1 = ''0X'');
          R = (if stripPrefix then 16 else 10 :: nat);
          S2 = (if stripPrefix then drop 2 S1 else S1);
          Z = takeWhile (\<lambda>c. radixDigit R c \<noteq> None) S2
      in if Z = [] then None
         else Some (sign *
                int (foldl (\<lambda>a c. a * R + (case radixDigit R c of Some d \<Rightarrow> d | None \<Rightarrow> 0))
                       0 Z)))"

text \<open>\<open>Math.round(x)\<close>: the integer nearest to \<open>x\<close>, a tie going up.\<close>

definition Math_round :: "rat \<Rightarrow> rat" where
  "Math_round x = of_int \<lfloor>x + 1 / 2\<rfloor>"

subsection \<open>Doubles\<close>

text \<open>
  \<open>round_double x\<close> is the double nearest to \<open>x\<close>, a tie going to the even significand
  (IEEE 754 binary64: a significand of 53 bits, and the step \<open>2^-1074\<close> below the
  normal range). \<open>ilog2 x\<close> is the integer part of the binary logarithm of \<open>\<bar>x\<bar>\<close>. A rounded
  value of magnitude \<open>2^1024\<close> or more is an infinity.
\<close>

definition ilog2 :: "rat \<Rightarrow> int" where
  "ilog2 x =
     (let (p, q) = quotient_of \<bar>x\<bar>; d = bitlen p - bitlen q
      in if 2 powi d \<le> \<bar>x\<bar> then d else d - 1)"

definition round_half_even :: "rat \<Rightarrow> int" where
  "round_half_even y =
     (let f = \<lfloor>y\<rfloor>; r = y - of_int f
      in if r < 1 / 2 then f else if 1 / 2 < r then f + 1 else if even f then f else f + 1)"

definition round_double :: "rat \<Rightarrow> rat" where
  "round_double x =
     (if x = 0 then 0
      else let e = max (ilog2 x - 52) (- 1074)
           in sgn x * of_int (round_half_even (\<bar>x\<bar> / 2 powi e)) * 2 powi e)"

definition finite_or_infinite :: "rat \<Rightarrow> jsnum" where
  "finite_or_infinite d =
     (if d \<noteq> 0 \<and> 1024 \<le> ilog2 d then (if 0 < d then PosInfinity else NegInfinity)
      else Num d)"

definition to_double :: "rat \<Rightarrow> jsnum" where
  "to_double x = finite_or_infinite (round_double x)"

subsection \<open>parseFloat\<close>

text \<open>
  \<open>parseFloat(string)\<close> (ECMAScript, parseFloat): leading white space is skipped and the
  longest prefix that is a decimal literal is read: a sign, then \<open>Infinity\<close> or digits with
  an optional fraction and an optional exponent, the exponent counting only when it has a
  digit. With no such prefix the result is \<open>NaN\<close>. The value is rounded to a double.
\<close>

definition digitsValue :: "string \<Rightarrow> int" where
  "digitsValue Z =
     foldl (\<lambda>a c. a * 10 + (case radixDigit 10 c of Some d \<Rightarrow> int d | None \<Rightarrow> 0)) 0 Z"

definition isDecimalDigit :: "char \<Rightarrow> bool" where
  "isDecimalDigit c \<longleftrightarrow> radixDigit 10 c \<noteq> None"

definition signedInteger :: "string \<Rightarrow> int" where
  "signedInteger S =
     (if S \<noteq> [] \<and> hd S = CHR ''-'' then - digitsValue (takeWhile isDecimalDigit (tl S))
      else if S \<noteq> [] \<and> hd S = CHR ''+'' then digitsValue (takeWhile isDecimalDigit (tl S))
      else digitsValue (takeWhile isDecimalDigit S))"

definition exponentPart :: "string \<Rightarrow> int" where
  "exponentPart S =
     (if S \<noteq> [] \<and> (hd S = CHR ''e'' \<or> hd S = CHR ''E'') then signedInteger (tl S) else 0)"

definition decimalValue :: "string \<Rightarrow> string \<Rightarrow> string \<Rightarrow> jsnum" where
  "decimalValue intDigits fracDigits S =
     (if intDigits = [] \<and> fracDigits = [] then NaN
      else to_double (of_int (digitsValue (intDigits @ fracDigits)) *
                      10 powi (exponentPart S - int (length fracDigits))))"

definition fractionPart :: "string \<Rightarrow> string \<Rightarrow> jsnum" where
  "fractionPart intDigits S =
     (if S \<noteq> [] \<and> hd S = CHR ''.''
      then decimalValue intDigits (takeWhile isDecimalDigit (tl S))
             (dropWhile isDecimalDigit (tl S))
      else decimalValue intDigits [] S)"

definition unsignedDecimalLiteral :: "string \<Rightarrow> jsnum" where
  "unsignedDecimalLiteral S =
     (if take 8 S = ''Infinity'' then PosInfinity
      else fractionPart (takeWhile isDecimalDigit S) (dropWhile isDecimalDigit S))"

definition js_negate :: "jsnum \<Rightarrow> jsnum" where
  "js_negate v =
     (case v of Num x \<Rightarrow> Num (- x) | NaN \<Rightarrow> NaN
      | PosInfinity \<Rightarrow> NegInfinity | NegInfinity \<Rightarrow> PosInfinity)"

definition decimalLiteral :: "string \<Rightarrow> jsnum" where
  "decimalLiteral S =
     (if S \<noteq> [] \<and> hd S = CHR ''-'' then js_negate (unsignedDecimalLiteral (tl S))
      else if S \<noteq> [] \<and> hd S = CHR ''+'' then unsignedDecimalLiteral (tl S)
      else unsignedDecimalLiteral S)"

definition parseFloat :: "string \<Rightarrow> jsnum" where
  "parseFloat inputString = decimalLiteral (dropWhile StrWhiteSpaceChar inputString)"

subsection \<open>Number::toString\<close>

text \<open>
  The string of a number (ECMAScript, Number::toString, radix 10): for a positive double
  \<open>x\<close>, the digits \<open>s\<close>, their number \<open>k\<close> and the position \<open>n\<close> of the decimal point are such
  that \<open>s * 10^(n - k)\<close> rounds to \<open>x\<close> with \<open>k\<close> as small as possible, the closest \<open>s\<close> being
  taken; seventeen digits always suffice. The digits are written plainly when
  \<open>10^-6 \<le> x < 10^21\<close> and with an exponent otherwise. \<open>ilog10 x\<close> is the integer part of
  the decimal logarithm of a positive \<open>x\<close>.
\<close>

definition ilog10 :: "rat \<Rightarrow> int" where
  "ilog10 x =
     (let c = (ilog2 x * 30103) div 100000
      in if 10 powi (c + 1) \<le> x then c + 1 else if x < 10 powi c then c - 1 else c)"

definition digitCandidates :: "rat \<Rightarrow> int \<Rightarrow> nat \<Rightarrow> int list" where
  "digitCandidates x n k =
     (let u = 10 powi (n - int k); f = \<lfloor>x / u\<rfloor>
      in filter (\<lambda>s. 10 ^ (k - 1) \<le> s \<and> s \<le> 10 ^ k \<and> round_double (of_int s * u) = x)
           [f, f + 1])"

definition closestDigits :: "rat \<Rightarrow> int \<Rightarrow> nat \<Rightarrow> int list \<Rightarrow> int" where
  "closestDigits x n k ss =
     (let u = 10 powi (n - int k)
      in case ss of
           [] \<Rightarrow> 0
         | [s] \<Rightarrow> s
         | s1 # s2 # _ \<Rightarrow>
             if x - of_int s1 * u < of_int s2 * u - x then s1
             else if of_int s2 * u - x < x - of_int s1 * u then s2
             else if even s1 then s1 else s2)"

definition shortestDigits :: "rat \<Rightarrow> int \<times> nat \<times> int" where
  "shortestDigits x =
     (let n = ilog10 x + 1
      in case List.find (\<lambda>k. digitCandidates x n k \<noteq> []) [1..<18] of
           None \<Rightarrow> (n, 17, \<lfloor>x / 10 powi (n - 17)\<rfloor>)
         | Some k \<Rightarrow>
             let s = closestDigits x n k (digitCandidates x n k)
             in if s = 10 ^ k then (n + 1, 1, 1) else (n, k, s))"

function decimalDigits :: "int \<Rightarrow> string" where
  "decimalDigits m =
     (if m < 10 then [''0123456789'' ! nat m]
      else decimalDigits (m div 10) @ [''0123456789'' ! nat (m mod 10)])"
  by pat_completeness auto
termination
  by (relation "measure nat") auto

definition formatDigits :: "int \<Rightarrow> nat \<Rightarrow> string \<Rightarrow> string" where
  "formatDigits n k ds =
     (if int k \<le> n \<and> n \<le> 21 then ds @ replicate (nat (n - int k)) CHR ''0''
      else if 0 < n \<and> n \<le> 21 then take (nat n) ds @ ''.'' @ drop (nat n) ds
      else if - 6 < n \<and> n \<le> 0 then ''0.'' @ replicate (nat (- n)) CHR ''0'' @ ds
      else if k = 1
      then ds @ ''e'' @ (if n - 1 < 0 then ''-'' else ''+'') @ decimalDigits \<bar>n - 1\<bar>
      else take 1 ds @ ''.'' @ drop 1 ds @ ''e'' @
             (if n - 1 < 0 then ''-'' else ''+'') @ decimalDigits \<bar>n - 1\<bar>)"

definition Number_toString_positive :: "rat \<Rightarrow> string" where
  "Number_toString_positive x =
     (case shortestDigits x of (n, k, s) \<Rightarrow> formatDigits n k (decimalDigits s))"

definition Number_toString :: "jsnum \<Rightarrow> string" where
  "Number_toString v =
     (case v of
        NaN \<Rightarrow> ''NaN''
      | PosInfinity \<Rightarrow> ''Infinity''
      | NegInfinity \<Rightarrow> ''-Infinity''
      | Num x \<Rightarrow>
          if x = 0 then ''0''
          else if x < 0 then ''-'' @ Number_toString_positive (- x)
          else Number_toString_positive x)"

subsection \<open>Values of a request body\<close>

text \<open>
  What \<open>express.json()\<close> and \<open>express.urlencoded()\<close> put in \<open>req.body\<close>: a field is
  absent (\<open>undefined\<close>), \<open>null\<close>, a boolean, a number, a string, an array or an object.
  \<open>ToBoolean\<close> is the truth value \<open>!v\<close> negates; \<open>ToString\<close> is the string \<open>parseInt\<close> and
  \<open>parseFloat\<close> read when given a value that is not a string. An array is the strings of
  its elements joined by commas, \<open>null\<close> and \<open>undefined\<close> elements being empty; a plain
  object is \<open>[object Object]\<close> whatever it holds.
\<close>

datatype jsval =
    JUndefined
  | JNull
  | JBoolean bool
  | JNumber jsnum
  | JString string
  | JArray "jsval list"
  | JObject

fun ToBoolean :: "jsval \<Rightarrow> bool" where
  "ToBoolean JUndefined = False"
| "ToBoolean JNull = False"
| "ToBoolean (JBoolean b) = b"
| "ToBoolean (JNumber (Num x)) = (x \<noteq> 0)"
| "ToBoolean (JNumber NaN) = False"
| "ToBoolean (JNumber PosInfinity) = True"
| "ToBoolean (JNumber NegInfinity) = True"
| "ToBoolean (JString str) = (str \<noteq> [])"
| "ToBoolean (JArray vs) = True"
| "ToBoolean JObject = True"

fun join_comma :: "string list \<Rightarrow> string" where
  "join_comma [] = []"
| "join_comma [x] = x"
| "join_comma (x # y # ys) = x @ '','' @ join_comma (y # ys)"

fun ToString :: "jsval \<Rightarrow> string" where
  "ToString JUndefined = ''undefined''"
| "ToString JNull = ''null''"
| "ToString (JBoolean b) = (if b then ''true'' else ''false'')"
| "ToString (JNumber v) = Number_toString v"
| "ToString (JString str) = str"
| "ToString (JArray vs) =
     join_comma (map (\<lambda>v. if v = JUndefined \<or> v = JNull then [] else ToString v) vs)"
| "ToString JObject = ''[object Object]''"

section \<open>Collection operations of the driver\<close>

text \<open>
  \<open>find(filter).toArray()\<close>, \<open>findOne(filter)\<close>, \<open>insertOne(doc)\<close>,
  \<open>updateOne(filter, update)\<close> (the first matching document only) and
  \<open>deleteMany(filter)\<close>.
\<close>

definition coll_find :: "('a \<Rightarrow> bool) \<Rightarrow> 'a list \<Rightarrow> 'a list" where
  "coll_find P xs = filter P xs"

definition coll_findOne :: "('a \<Rightarrow> bool) \<Rightarrow> 'a list \<Rightarrow> 'a option" where
  "coll_findOne P xs = List.find P xs"

fun coll_updateOne :: "('a \<Rightarrow> bool) \<Rightarrow> ('a \<Rightarrow> 'a) \<Rightarrow> 'a list \<Rightarrow> 'a list" where
  "coll_updateOne P f [] = []"
| "coll_updateOne P f (x # xs) = (if P x then f x # xs else x # coll_updateOne P f xs)"

definition coll_deleteMany :: "('a \<Rightarrow> bool) \<Rightarrow> 'a list \<Rightarrow> 'a list" where
  "coll_deleteMany P xs = filter (\<lambda>x. \<not> P x) xs"

text \<open>
  \<open>insertOne\<close> on \<open>ratings\<close>: the driver gives the document an \<open>_id\<close> no document of the
  collection has, and the document is added at the end.
\<close>

definition fresh_id :: "rating_doc list \<Rightarrow> nat" where
  "fresh_id rs = Suc (foldr max (map r_id rs) 0)"

definition ratings_insertOne :: "rating_doc \<Rightarrow> rating_doc list \<Rightarrow> rating_doc \<times> rating_doc list" where
  "ratings_insertOne doc rs = (let d = doc\<lparr>r_id := fresh_id rs\<rparr> in (d, rs @ [d]))"

section \<open>Rating submission: POST /movies/:id/rate (server/routes/api.js)\<close>

text \<open>
  The request: \<open>rq_id\<close> is \<open>req.params.id\<close>, a string; \<open>rq_userId\<close> and \<open>rq_rating\<close> are
  \<open>req.body.userId\<close> and \<open>req.body.rating\<close>, any value a body can hold.
\<close>

record rate_request =
  rq_id :: string
  rq_userId :: jsval
  rq_rating :: jsval

datatype rate_response =
    Status400 string
  | Status404 string
  | Status201 rating_doc int jsnum nat

text \<open>
  Lines 208-209 and 217: the statistics the handler computes from the ratings it read back.
  The sum, the quotient by the count and the product by 100 are doubles; \<open>Math.round\<close> of a
  double is exact. On an empty array \<open>totalRating / allRatings.length\<close> is \<open>0 / 0\<close>, that is
  \<open>NaN\<close>, and \<open>Math.round(NaN * 100) / 100\<close> is \<open>NaN\<close>. The ratings of the collection are
  finite and so are their sums.
\<close>

definition rate_averageRating :: "rating_doc list \<Rightarrow> jsnum" where
  "rate_averageRating allRatings =
     (let totalRating = foldl (\<lambda>sum r. round_double (sum + r_rating r)) 0 allRatings
      in if length allRatings = 0 then NaN
         else Num (Math_round
                     (round_double
                        (round_double (totalRating / of_nat (length allRatings)) * 100)) / 100))"

text \<open>
  The handler (lines 160-234). Line 174, \<open>!userId || isNaN(parseInt(userId))\<close>, and line
  178, \<open>!rating || isNaN(parseFloat(rating))\<close>, test the raw body values; \<open>parseInt\<close> and
  \<open>parseFloat\<close> read the string of the value. Line 183 compares the parsed rating with 0.5
  and 5.0: an infinity is outside. Line 195 stores \<open>parseInt(userId)\<close> and line 197 the
  parsed rating. \<open>now\<close> is \<open>Date.now()\<close>, in milliseconds. The store operations are taken
  to succeed.
\<close>

definition post_movies_rate :: "db \<Rightarrow> int \<Rightarrow> rate_request \<Rightarrow> rate_response \<times> db" where
  "post_movies_rate s now rq =
     (case parseInt (rq_id rq) of
        None \<Rightarrow> (Status400 ''Invalid movie ID'', s)
      | Some mid \<Rightarrow>
          if \<not> ToBoolean (rq_userId rq) then (Status400 ''Valid userId is required'', s)
          else
            (case parseInt (ToString (rq_userId rq)) of
               None \<Rightarrow> (Status400 ''Valid userId is required'', s)
             | Some userId \<Rightarrow>
                 if \<not> ToBoolean (rq_rating rq) then (Status400 ''Valid rating is required'', s)
                 else
                   (case parseFloat (ToString (rq_rating rq)) of
                      NaN \<Rightarrow> (Status400 ''Valid rating is required'', s)
                    | PosInfinity \<Rightarrow> (Status400 ''Rating must be between 0.5 and 5.0'', s)
                    | NegInfinity \<Rightarrow> (Status400 ''Rating must be between 0.5 and 5.0'', s)
                    | Num ratingValue \<Rightarrow>
                        if ratingValue < 1 / 2 \<or> ratingValue > 5
                        then (Status400 ''Rating must be between 0.5 and 5.0'', s)
                        else
                          (case coll_findOne (\<lambda>m. movieId m = mid) (movies s) of
                             None \<Rightarrow> (Status404 ''Movie not found'', s)
                           | Some mv \<Rightarrow>
                               (let newRating0 = \<lparr>r_id = 0, r_userId = userId, r_movieId = mid,
                                       r_rating = ratingValue, r_timestamp = now div 1000\<rparr>;
                                    (newRating, rs1) = ratings_insertOne newRating0 (ratings s);
                                    allRatings = coll_find (\<lambda>r. r_movieId r = mid) rs1;
                                    avg = rate_averageRating allRatings;
                                    ms1 = coll_updateOne (\<lambda>m. movieId m = mid)
                                            (\<lambda>m. m\<lparr>averageRating := avg,
                                                   ratingCount := length allRatings\<rparr>)
                                            (movies s)
                                in (Status201 newRating mid avg (length allRatings),
                                    s\<lparr>movies := ms1, ratings := rs1\<rparr>))))))"

section \<open>Transactions of the driver\<close>

text \<open>
  A connection is the durable database together with the writes buffered by the open
  transaction. An operation takes part in a transaction only when it is called with the
  \<open>session\<close> option: it then reads through the buffer and its write is buffered until
  commit. An operation called without the option reads and writes the durable database at
  once. Commit applies the buffer, abort drops it.
\<close>

record conn =
  durable :: db
  pending :: "(db \<Rightarrow> db) list"

definition txn_view :: "conn \<Rightarrow> db" where
  "txn_view c = fold (\<lambda>w d. w d) (pending c) (durable c)"

definition run_read :: "bool \<Rightarrow> (db \<Rightarrow> 'a) \<Rightarrow> conn \<Rightarrow> 'a" where
  "run_read with_session q c = (if with_session then q (txn_view c) else q (durable c))"

definition run_write :: "bool \<Rightarrow> (db \<Rightarrow> db) \<Rightarrow> conn \<Rightarrow> conn" where
  "run_write with_session w c =
     (if with_session then c\<lparr>pending := pending c @ [w]\<rparr>
      else c\<lparr>durable := w (durable c)\<rparr>)"

definition commitTransaction :: "conn \<Rightarrow> conn" where
  "commitTransaction c = \<lparr>durable = txn_view c, pending = []\<rparr>"

definition abortTransaction :: "conn \<Rightarrow> conn" where
  "abortTransaction c = c\<lparr>pending := []\<rparr>"

text \<open>
  The store operations of the merge, in the order the callback calls them, and the commit.
  A fault names the operation at which the store throws, before the operation has any
  effect; the error is not a transient one, so \<open>withTransaction\<close> does not run the callback
  again.
\<close>

datatype txn_op =
    FindRatingsToMove
  | BulkWrite
  | FindAllRatings
  | UpdatePrimary
  | DeleteDuplicates
  | CommitTransaction

definition withTransaction ::
  "txn_op option \<Rightarrow> (conn \<Rightarrow> (txn_op + 'a) \<times> conn) \<Rightarrow> conn \<Rightarrow> (txn_op + 'a) \<times> conn" where
  "withTransaction fault callback c =
     (case callback c of
        (Inl e, c1) \<Rightarrow> (Inl e, abortTransaction c1)
      | (Inr v, c1) \<Rightarrow>
          if fault = Some CommitTransaction then (Inl CommitTransaction, abortTransaction c1)
          else (Inr v, commitTransaction c1))"

section \<open>Merging duplicates: admin/merge_duplicates.js\<close>

text \<open>
  \<open>bulkWrite\<close> of the \<open>updateOne\<close> operations built from \<open>ratingsToMove\<close>: in order, each
  sets \<open>movieId\<close> on the first document whose \<open>_id\<close> is the one of the rating it was built
  from.
\<close>

definition ratings_bulkWrite :: "int \<Rightarrow> rating_doc list \<Rightarrow> rating_doc list \<Rightarrow> rating_doc list" where
  "ratings_bulkWrite primaryId ratingsToMove rs =
     fold (\<lambda>rating. coll_updateOne (\<lambda>r. r_id r = r_id rating) (\<lambda>r. r\<lparr>r_movieId := primaryId\<rparr>))
       ratingsToMove rs"

text \<open>
  Lines 52-54: the statistics the merge computes from the ratings of the primary movie. The
  sum is a double; the quotient is stored as it is, without rounding to two decimals.
\<close>

definition merge_averageRating :: "rating_doc list \<Rightarrow> jsnum" where
  "merge_averageRating allRatings =
     (let totalRating = foldl (\<lambda>acc r. round_double (acc + r_rating r)) 0 allRatings;
          ratingCount = length allRatings
      in if ratingCount > 0 then Num (totalRating / of_nat ratingCount) else Num 0)"

text \<open>
  The callback given to \<open>session.withTransaction\<close> (lines 32-69). No operation in it is
  given the \<open>session\<close> option, hence \<open>False\<close> at every call. The result is the number of
  ratings moved and the statistics written.
\<close>

definition merge_callback ::
  "txn_op option \<Rightarrow> movie \<Rightarrow> int list \<Rightarrow> conn \<Rightarrow> (txn_op + nat \<times> jsnum \<times> nat) \<times> conn" where
  "merge_callback fault primaryMovie duplicateMovieIds c0 =
     (if fault = Some FindRatingsToMove then (Inl FindRatingsToMove, c0)
      else
        let ratingsToMove =
              run_read False
                (\<lambda>d. coll_find (\<lambda>r. r_movieId r \<in> set duplicateMovieIds) (ratings d)) c0
        in if length ratingsToMove > 0 \<and> fault = Some BulkWrite then (Inl BulkWrite, c0)
           else
             let c1 = (if length ratingsToMove > 0
                       then run_write False
                              (\<lambda>d. d\<lparr>ratings :=
                                 ratings_bulkWrite (movieId primaryMovie) ratingsToMove (ratings d)\<rparr>)
                              c0
                       else c0)
             in if fault = Some FindAllRatings then (Inl FindAllRatings, c1)
                else
                  let allRatings =
                        run_read False
                          (\<lambda>d. coll_find (\<lambda>r. r_movieId r = movieId primaryMovie) (ratings d)) c1;
                      avg = merge_averageRating allRatings;
                      cnt = length allRatings
                  in if fault = Some UpdatePrimary then (Inl UpdatePrimary, c1)
                     else
                       let c2 = run_write False
                                  (\<lambda>d. d\<lparr>movies :=
                                     coll_updateOne (\<lambda>m. movieId m = movieId primaryMovie)
                                       (\<lambda>m. m\<lparr>averageRating := avg, ratingCount := cnt\<rparr>)
                                       (movies d)\<rparr>)
                                  c1
                       in if fault = Some DeleteDuplicates then (Inl DeleteDuplicates, c2)
                          else
                            let c3 = run_write False
                                       (\<lambda>d. d\<lparr>movies :=
                                          coll_deleteMany
                                            (\<lambda>m. movieId m \<in> set duplicateMovieIds) (movies d)\<rparr>)
                                       c2
                            in (Inr (length ratingsToMove, avg, cnt), c3))"

text \<open>
  Line 16: the movies the merge works on. The filter is
  \<open>{ title: searchTitle, year: parseInt(year) }\<close>; a \<open>year\<close> that is \<open>null\<close> in the
  document matches no number, and no document matches \<open>NaN\<close>.
\<close>

definition searchTitle :: "string \<Rightarrow> string \<Rightarrow> string" where
  "searchTitle titleArg yearArg = titleArg @ '' ('' @ yearArg @ '')''"

definition title_year_filter :: "string \<Rightarrow> string \<Rightarrow> movie \<Rightarrow> bool" where
  "title_year_filter titleArg yearArg m \<longleftrightarrow>
     title m = searchTitle titleArg yearArg \<and>
     (case parseInt yearArg of None \<Rightarrow> False | Some y \<Rightarrow> year m = Some y)"

definition merge_movies :: "db \<Rightarrow> string \<Rightarrow> string \<Rightarrow> movie list" where
  "merge_movies s titleArg yearArg =
     sort_key movieId (coll_find (title_year_filter titleArg yearArg) (movies s))"

text \<open>
  The script only logs; the outcome records which log line ends the run:
  the usage line (\<open>Usage\<close>), \<open>No duplicates found.\<close> (\<open>NoOp\<close>),
  \<open>Transaction committed.\<close> followed by a commit that succeeds (\<open>Merged\<close>, with the
  primary \<open>movieId\<close>, the number of ratings moved and the statistics written), or
  \<open>Transaction aborted:\<close> (\<open>Aborted\<close>). A missing command line argument is
  \<open>undefined\<close>, which the guard of line 4 treats as it treats the empty string.
\<close>

datatype merge_outcome =
    Usage
  | NoOp
  | Merged int nat jsnum nat
  | Aborted txn_op

definition mergeDuplicates :: "txn_op option \<Rightarrow> db \<Rightarrow> string \<Rightarrow> string \<Rightarrow> merge_outcome \<times> db" where
  "mergeDuplicates fault s titleArg yearArg =
     (if titleArg = [] \<or> yearArg = [] then (Usage, s)
      else
        let found = merge_movies s titleArg yearArg
        in if length found < 2 then (NoOp, s)
           else
             let primaryMovie = hd found;
                 duplicateMovies = tl found;
                 duplicateMovieIds = map movieId duplicateMovies
             in case withTransaction fault (merge_callback fault primaryMovie duplicateMovieIds)
                       \<lparr>durable = s, pending = []\<rparr> of
                  (Inl e, c) \<Rightarrow> (Aborted e, durable c)
                | (Inr (moved, avg, cnt), c) \<Rightarrow>
                    (Merged (movieId primaryMovie) moved avg cnt, durable c))"

section \<open>Finding duplicates: admin/find_duplicates.js\<close>

text \<open>
  The body of \<open>findDuplicates\<close> declares \<open>movies\<close> twice with \<open>const\<close> in one block
  (lines 15 and 16). The engine rejects the script when it compiles it
  (\<open>SyntaxError: Identifier 'movies' has already been declared\<close>), before any statement
  runs: no query is sent and nothing is reported, whatever the arguments and the database.
  \<open>reported\<close> is the list of movies a run prints.

  The two queries are kept as they are written: line 15 is by title and year, line 16 by
  title alone. Neither is ever run.
\<close>

datatype script_error = SyntaxError

definition findDuplicates :: "db \<Rightarrow> string \<Rightarrow> string \<Rightarrow> script_error + movie list" where
  "findDuplicates s titleArg yearArg = Inl SyntaxError"

definition reported :: "script_error + movie list \<Rightarrow> movie list" where
  "reported res = (case res of Inl e \<Rightarrow> [] | Inr ms \<Rightarrow> ms)"

definition findDuplicates_line15 :: "db \<Rightarrow> string \<Rightarrow> string \<Rightarrow> movie list" where
  "findDuplicates_line15 s titleArg yearArg =
     coll_find (title_year_filter titleArg yearArg) (movies s)"

definition findDuplicates_line16 :: "db \<Rightarrow> string \<Rightarrow> string \<Rightarrow> movie list" where
  "findDuplicates_line16 s titleArg yearArg =
     coll_find (\<lambda>m. title m = searchTitle titleArg yearArg) (movies s)"

section \<open>Observations on a database\<close>

text \<open>The rating events bound to a movie, and the statistics stored on its document.\<close>

definition ratings_of :: "int \<Rightarrow> db \<Rightarrow> rating_doc list" where
  "ratings_of mid s = coll_find (\<lambda>r. r_movieId r = mid) (ratings s)"

definition stored_aggregate :: "int \<Rightarrow> db \<Rightarrow> (jsnum \<times> nat) option" where
  "stored_aggregate mid s =
     map_option (\<lambda>m. (averageRating m, ratingCount m))
       (coll_findOne (\<lambda>m. movieId m = mid) (movies s))"

text \<open>The pair each path writes for the ratings it has read.\<close>

definition rate_aggregate :: "rating_doc list \<Rightarrow> jsnum \<times> nat" where
  "rate_aggregate allRatings = (rate_averageRating allRatings, length allRatings)"

definition merge_aggregate :: "rating_doc list \<Rightarrow> jsnum \<times> nat" where
  "merge_aggregate allRatings = (merge_averageRating allRatings, length allRatings)"

text \<open>
  The computation of lines 208-209 of the submission on the rating values alone, in the
  order of the events.
\<close>

definition rate_average :: "rat list \<Rightarrow> jsnum" where
  "rate_average values =
     (if length values = 0 then NaN
      else Num (Math_round
                  (round_double
                     (round_double
                        (foldl (\<lambda>sum v. round_double (sum + v)) 0 values /
                         of_nat (length values)) * 100)) / 100))"








text \<open>
  The values of the locals \<open>duplicateMovieIds\<close> (line 25) and \<open>ratingsToMove\<close> (line 35) in
  a run of the merge, and the \<open>ratings\<close> collection after lines 38-49.
\<close>

definition merge_duplicateMovieIds :: "db \<Rightarrow> string \<Rightarrow> string \<Rightarrow> int list" where
  "merge_duplicateMovieIds s titleArg yearArg = map movieId (tl (merge_movies s titleArg yearArg))"

definition merge_ratingsToMove :: "db \<Rightarrow> int list \<Rightarrow> rating_doc list" where
  "merge_ratingsToMove s duplicateMovieIds =
     coll_find (\<lambda>r. r_movieId r \<in> set duplicateMovieIds) (ratings s)"

definition merge_moved :: "db \<Rightarrow> int \<Rightarrow> int list \<Rightarrow> rating_doc list" where
  "merge_moved s primaryId duplicateMovieIds =
     (if length (merge_ratingsToMove s duplicateMovieIds) > 0
      then ratings_bulkWrite primaryId (merge_ratingsToMove s duplicateMovieIds) (ratings s)
      else ratings s)"

section \<open>Example databases\<close>

definition mk_movie :: "int \<Rightarrow> string \<Rightarrow> int option \<Rightarrow> jsnum \<Rightarrow> nat \<Rightarrow> movie" where
  "mk_movie i t y a c =
     \<lparr>movieId = i, title = t, year = y, genres = [], averageRating = a, ratingCount = c\<rparr>"

definition mk_rating :: "nat \<Rightarrow> int \<Rightarrow> int \<Rightarrow> rat \<Rightarrow> rating_doc" where
  "mk_rating i u m v =
     \<lparr>r_id = i, r_userId = u, r_movieId = m, r_rating = v, r_timestamp = 0\<rparr>"

text \<open>One movie with the ratings 4.0, 5.0 and 3.0.\<close>

definition scenario_A :: db where
  "scenario_A =
     \<lparr>movies = [mk_movie 1 ''Heat (1995)'' (Some 1995) (Num 4) 3],
      ratings = [mk_rating 1 1 1 4, mk_rating 2 2 1 5, mk_rating 3 3 1 3],
      tags = [], links = []\<rparr>"

text \<open>
  Two movies with the title and year of "Alpha (1999)": 10 with one rating of 5.0, 11 with
  two ratings of 3.0, a tag and a link.
\<close>

definition scenario_B :: db where
  "scenario_B =
     \<lparr>movies = [mk_movie 10 ''Alpha (1999)'' (Some 1999) (Num 5) 1,
                mk_movie 11 ''Alpha (1999)'' (Some 1999) (Num 3) 2],
      ratings = [mk_rating 1 1 10 5, mk_rating 2 2 11 3, mk_rating 3 3 11 3],
      tags = [\<lparr>t_userId = 2, t_movieId = 11, t_tag = ''space'', t_timestamp = 0\<rparr>],
      links = [\<lparr>l_movieId = 11, l_imdbId = Some ''0114709'', l_tmdbId = Some 862\<rparr>]\<rparr>"

text \<open>Two movies with the title "Alpha (1999)"; the document of the second has no year.\<close>

definition scenario_no_year :: db where
  "scenario_no_year =
     \<lparr>movies = [mk_movie 10 ''Alpha (1999)'' (Some 1999) (Num 0) 0,
                mk_movie 11 ''Alpha (1999)'' None (Num 0) 0],
      ratings = [], tags = [], links = []\<rparr>"

text \<open>
  A request for movie 1 by user 9 with the rating 4.5, and a second one, from a form, by
  user 7 with the rating 2.0.
\<close>

definition rq_A :: rate_request where
  "rq_A = \<lparr>rq_id = ''1'', rq_userId = JNumber (Num 9), rq_rating = JNumber (Num (9 / 2))\<rparr>"





text \<open>The ratings 4.0, 5.0, 3.0 and 4.5 of one movie.\<close>

definition ratings_A4 :: "rating_doc list" where
  "ratings_A4 =
     [mk_rating 1 1 1 4, mk_rating 2 2 1 5, mk_rating 3 3 1 3, mk_rating 4 9 1 (9 / 2)]"

text \<open>
  \<open>scenario_B\<close> after a merge that commits, and after a merge in which the update of the
  primary movie throws.
\<close>

definition scenario_B_merged :: db where
  "scenario_B_merged =
     \<lparr>movies = [mk_movie 10 ''Alpha (1999)'' (Some 1999) (Num (11 / 3)) 3],
      ratings = [mk_rating 1 1 10 5, mk_rating 2 2 10 3, mk_rating 3 3 10 3],
      tags = tags scenario_B, links = links scenario_B\<rparr>"

definition scenario_B_aborted :: db where
  "scenario_B_aborted =
     scenario_B\<lparr>ratings := [mk_rating 1 1 10 5, mk_rating 2 2 10 3, mk_rating 3 3 10 3]\<rparr>"

section \<open>Rounding to a double\<close>









section \<open>The collection operations\<close>

lemma coll_findOne_updateOne:
  assumes "coll_findOne P xs = Some x" and pres: "\<forall>y. P y \<longrightarrow> P (f y)"
  shows "coll_findOne P (coll_updateOne P f xs) = Some (f x)"
  using assms(1)
proof (induction xs)
  case Nil
  then show ?case by (simp add: coll_findOne_def)
next
  case (Cons a xs)
  show ?case
  proof (cases "P a")
    case True
    with Cons.prems have "x = a" by (simp add: coll_findOne_def)
    with True pres show ?thesis by (simp add: coll_findOne_def)
  next
    case False
    with Cons show ?thesis by (simp add: coll_findOne_def)
  qed
qed

lemma map_filter_updateOne:
  assumes g: "\<And>x. g (f x) = g x" and Q: "\<And>x. Q (f x) \<longleftrightarrow> Q x"
  shows "map g (filter Q (coll_updateOne P f xs)) = map g (filter Q xs)"
proof (induction xs)
  case Nil
  show ?case by simp
next
  case (Cons a xs)
  show ?case
  proof (cases "P a")
    case True
    have "map g (filter Q (f a # xs)) = map g (filter Q (a # xs))"
      by (simp add: g [of a] Q [of a])
    with True show ?thesis by simp
  next
    case False
    with Cons.IH show ?thesis by simp
  qed
qed

lemma coll_findOne_deleteMany:
  assumes "P d" shows "coll_findOne (\<lambda>m. k m = d) (coll_deleteMany (\<lambda>m. P (k m)) xs) = None"
  using assms by (auto simp: coll_findOne_def coll_deleteMany_def find_None_iff)

lemma coll_updateOne_distinct:
  assumes "distinct (map k xs)"
  shows "coll_updateOne (\<lambda>x. k x = i) f xs = map (\<lambda>x. if k x = i then f x else x) xs"
  using assms
proof (induction xs)
  case Nil
  show ?case by simp
next
  case (Cons a xs)
  show ?case
  proof (cases "k a = i")
    case True
    from Cons.prems have "k a \<notin> k ` set xs" by simp
    with True have "\<forall>x \<in> set xs. k x \<noteq> i" by (force simp: image_iff)
    then have "map (\<lambda>x. if k x = i then f x else x) xs = xs"
      by (intro map_idI) simp
    with True show ?thesis by simp
  next
    case False
    with Cons show ?thesis by simp
  qed
qed

lemma length_filter_disj:
  assumes "\<And>x. \<not> (P x \<and> Q x)"
  shows "length (filter (\<lambda>x. P x \<or> Q x) xs) = length (filter P xs) + length (filter Q xs)"
proof (induction xs)
  case Nil
  show ?case by simp
next
  case (Cons a xs)
  with assms [of a] show ?case by auto
qed

lemma length_filter_keys:
  assumes "distinct ks"
  shows "length (filter (\<lambda>r. k r \<in> set ks) rs) =
           sum_list (map (\<lambda>i. length (filter (\<lambda>r. k r = i) rs)) ks)"
  using assms
proof (induction ks)
  case Nil
  show ?case by simp
next
  case (Cons a ks)
  then have a: "a \<notin> set ks" and d: "distinct ks" by simp_all
  have "length (filter (\<lambda>r. k r = a \<or> k r \<in> set ks) rs) =
          length (filter (\<lambda>r. k r = a) rs) + length (filter (\<lambda>r. k r \<in> set ks) rs)"
    by (rule length_filter_disj) (use a in auto)
  with Cons.IH [OF d] show ?case by simp
qed

lemma coll_findOne_deleteMany_other:
  assumes "\<And>x. P x \<Longrightarrow> \<not> Q x"
  shows "coll_findOne P (coll_deleteMany Q xs) = coll_findOne P xs"
proof (induction xs)
  case Nil
  show ?case by (simp add: coll_findOne_def coll_deleteMany_def)
next
  case (Cons a xs)
  then have IH: "List.find P (filter (\<lambda>x. \<not> Q x) xs) = List.find P xs"
    by (simp add: coll_findOne_def coll_deleteMany_def)
  show ?case
  proof (cases "P a")
    case True
    with assms [of a] show ?thesis by (simp add: coll_findOne_def coll_deleteMany_def)
  next
    case False
    with IH show ?thesis by (simp add: coll_findOne_def coll_deleteMany_def)
  qed
qed

lemma coll_findOne_member:
  assumes "x \<in> set xs" and "P x"
  shows "\<exists>y. coll_findOne P xs = Some y"
proof (cases "coll_findOne P xs")
  case None
  with assms show ?thesis by (auto simp: coll_findOne_def find_None_iff)
next
  case (Some y)
  then show ?thesis by simp
qed

section \<open>The rating submission, case by case\<close>

lemma post_movies_rate_accept:
  assumes "parseInt (rq_id rq) = Some mid"
      and "ToBoolean (rq_userId rq)" and "parseInt (ToString (rq_userId rq)) = Some u"
      and "ToBoolean (rq_rating rq)" and "parseFloat (ToString (rq_rating rq)) = Num v"
      and "1 / 2 \<le> v" and "v \<le> 5"
      and "coll_findOne (\<lambda>m. movieId m = mid) (movies s) = Some mv"
  shows "post_movies_rate s now rq =
     (let r = \<lparr>r_id = fresh_id (ratings s), r_userId = u, r_movieId = mid, r_rating = v,
                r_timestamp = now div 1000\<rparr>;
          allRatings = coll_find (\<lambda>r. r_movieId r = mid) (ratings s @ [r]);
          avg = rate_averageRating allRatings
      in (Status201 r mid avg (length allRatings),
          s\<lparr>movies := coll_updateOne (\<lambda>m. movieId m = mid)
                          (\<lambda>m. m\<lparr>averageRating := avg, ratingCount := length allRatings\<rparr>)
                          (movies s),
             ratings := ratings s @ [r]\<rparr>))"
proof -
  from assms(6) have "\<not> v < 1 / 2" by auto
  with assms show ?thesis
    by (simp add: post_movies_rate_def ratings_insertOne_def Let_def)
qed

lemma post_movies_rate_reject:
  assumes "parseInt (rq_id rq) = None \<or> \<not> ToBoolean (rq_userId rq) \<or>
           parseInt (ToString (rq_userId rq)) = None \<or> \<not> ToBoolean (rq_rating rq) \<or>
           (\<forall>v. parseFloat (ToString (rq_rating rq)) = Num v \<longrightarrow> v < 1 / 2 \<or> 5 < v)"
  shows "\<exists>msg. post_movies_rate s now rq = (Status400 msg, s)"
proof (cases "parseInt (rq_id rq)")
  case None
  then show ?thesis by (simp add: post_movies_rate_def)
next
  case mid: (Some mid)
  show ?thesis
  proof (cases "ToBoolean (rq_userId rq)")
    case False
    with mid show ?thesis by (simp add: post_movies_rate_def)
  next
    case tu: True
    show ?thesis
    proof (cases "parseInt (ToString (rq_userId rq))")
      case None
      with mid tu show ?thesis by (simp add: post_movies_rate_def)
    next
      case u: (Some u)
      show ?thesis
      proof (cases "ToBoolean (rq_rating rq)")
        case False
        with mid tu u show ?thesis by (simp add: post_movies_rate_def)
      next
        case tr: True
        show ?thesis
        proof (cases "parseFloat (ToString (rq_rating rq))")
          case (Num v)
          with assms mid tu u tr have "v < 1 / 2 \<or> 5 < v" by simp
          with mid tu u tr Num show ?thesis by (simp add: post_movies_rate_def)
        next
          case NaN
          with mid tu u tr show ?thesis by (simp add: post_movies_rate_def)
        next
          case PosInfinity
          with mid tu u tr show ?thesis by (simp add: post_movies_rate_def)
        next
          case NegInfinity
          with mid tu u tr show ?thesis by (simp add: post_movies_rate_def)
        qed
      qed
    qed
  qed
qed

lemma post_movies_rate_accepted_values:
  assumes "\<not> (parseInt (rq_id rq) = None \<or> \<not> ToBoolean (rq_userId rq) \<or>
           parseInt (ToString (rq_userId rq)) = None \<or> \<not> ToBoolean (rq_rating rq) \<or>
           (\<forall>v. parseFloat (ToString (rq_rating rq)) = Num v \<longrightarrow> v < 1 / 2 \<or> 5 < v))"
  obtains m u v where "parseInt (rq_id rq) = Some m"
      and "ToBoolean (rq_userId rq)" and "parseInt (ToString (rq_userId rq)) = Some u"
      and "ToBoolean (rq_rating rq)" and "parseFloat (ToString (rq_rating rq)) = Num v"
      and "1 / 2 \<le> v" and "v \<le> 5"
proof -
  from assms obtain m where m: "parseInt (rq_id rq) = Some m" by auto
  from assms obtain u where u: "parseInt (ToString (rq_userId rq)) = Some u" by auto
  from assms obtain v where v: "parseFloat (ToString (rq_rating rq)) = Num v" "\<not> v < 1 / 2" "\<not> 5 < v"
    by auto
  from assms have "ToBoolean (rq_userId rq)" "ToBoolean (rq_rating rq)" by auto
  with m u v that show thesis by auto
qed

lemma post_movies_rate_missing:
  assumes "parseInt (rq_id rq) = Some mid"
      and "coll_findOne (\<lambda>m. movieId m = mid) (movies s) = None"
  shows "\<exists>msg. post_movies_rate s now rq = (Status400 msg, s) \<or>
               post_movies_rate s now rq = (Status404 msg, s)"
proof (cases "parseInt (rq_id rq) = None \<or> \<not> ToBoolean (rq_userId rq) \<or>
           parseInt (ToString (rq_userId rq)) = None \<or> \<not> ToBoolean (rq_rating rq) \<or>
           (\<forall>v. parseFloat (ToString (rq_rating rq)) = Num v \<longrightarrow> v < 1 / 2 \<or> 5 < v)")
  case True
  from post_movies_rate_reject [OF this, of s now] show ?thesis by blast
next
  case False
  then obtain m u v where p: "parseInt (rq_id rq) = Some m"
      "ToBoolean (rq_userId rq)" "parseInt (ToString (rq_userId rq)) = Some u"
      "ToBoolean (rq_rating rq)" "parseFloat (ToString (rq_rating rq)) = Num v"
      "1 / 2 \<le> v" "v \<le> 5"
    by (rule post_movies_rate_accepted_values)
  from p(6) have "\<not> v < 1 / 2" by auto
  with p assms show ?thesis
    by (simp add: post_movies_rate_def)
qed

lemma post_movies_rate_201:
  assumes "post_movies_rate s now rq = (Status201 r mid avg cnt, s')"
  shows "parseInt (rq_id rq) = Some mid
       \<and> (\<exists>u v mv. ToBoolean (rq_userId rq) \<and> parseInt (ToString (rq_userId rq)) = Some u
            \<and> ToBoolean (rq_rating rq) \<and> parseFloat (ToString (rq_rating rq)) = Num v
            \<and> 1 / 2 \<le> v \<and> v \<le> 5
            \<and> coll_findOne (\<lambda>m. movieId m = mid) (movies s) = Some mv
            \<and> r = \<lparr>r_id = fresh_id (ratings s), r_userId = u, r_movieId = mid, r_rating = v,
                   r_timestamp = now div 1000\<rparr>)
       \<and> ratings s' = ratings s @ [r]
       \<and> avg = rate_averageRating (ratings_of mid s')
       \<and> cnt = length (ratings_of mid s')
       \<and> movies s' = coll_updateOne (\<lambda>m. movieId m = mid)
                        (\<lambda>m. m\<lparr>averageRating := avg, ratingCount := cnt\<rparr>) (movies s)
       \<and> tags s' = tags s \<and> links s' = links s"
proof -
  have ok: "\<not> (parseInt (rq_id rq) = None \<or> \<not> ToBoolean (rq_userId rq) \<or>
           parseInt (ToString (rq_userId rq)) = None \<or> \<not> ToBoolean (rq_rating rq) \<or>
           (\<forall>v. parseFloat (ToString (rq_rating rq)) = Num v \<longrightarrow> v < 1 / 2 \<or> 5 < v))"
  proof
    assume "parseInt (rq_id rq) = None \<or> \<not> ToBoolean (rq_userId rq) \<or>
           parseInt (ToString (rq_userId rq)) = None \<or> \<not> ToBoolean (rq_rating rq) \<or>
           (\<forall>v. parseFloat (ToString (rq_rating rq)) = Num v \<longrightarrow> v < 1 / 2 \<or> 5 < v)"
    from post_movies_rate_reject [OF this, of s now] assms show False by auto
  qed
  then obtain m u v where p: "parseInt (rq_id rq) = Some m"
      "ToBoolean (rq_userId rq)" "parseInt (ToString (rq_userId rq)) = Some u"
      "ToBoolean (rq_rating rq)" "parseFloat (ToString (rq_rating rq)) = Num v"
      "1 / 2 \<le> v" "v \<le> 5"
    by (rule post_movies_rate_accepted_values)
  have "coll_findOne (\<lambda>x. movieId x = m) (movies s) \<noteq> None"
    using post_movies_rate_missing [OF p(1), of s now] assms by auto
  then obtain mv where f: "coll_findOne (\<lambda>x. movieId x = m) (movies s) = Some mv" by auto
  note eq = post_movies_rate_accept [OF p f, of now, unfolded Let_def]
  from eq assms have m: "m = mid" by simp
  from eq assms show ?thesis unfolding m
    using p(2-7) f [unfolded m] p(1) [unfolded m]
    by (auto simp: ratings_of_def)
qed


lemma rate_averageRating_values:
  "rate_averageRating rs = rate_average (map r_rating rs)"
proof -
  have "foldl (\<lambda>sum r. round_double (sum + r_rating r)) acc rs =
        foldl (\<lambda>sum v. round_double (sum + v)) acc (map r_rating rs)" for acc
    by (induction rs arbitrary: acc) simp_all
  then show ?thesis
    by (simp add: rate_averageRating_def rate_average_def Let_def)
qed

lemma scenario_A_average:
  assumes "map r_rating rs = [4, 5, 3, 9 / 2]"
  shows "rate_averageRating rs = Num (413 / 100)" and "length rs = 4"
proof -
  from assms have "length (map r_rating rs) = 4" by simp
  then show "length rs = 4" by simp
  have "rate_average [4, 5, 3, 9 / 2] = Num (413 / 100)" by code_simp
  then show "rate_averageRating rs = Num (413 / 100)"
    by (simp add: rate_averageRating_values assms)
qed

section \<open>The merge, case by case\<close>

text \<open>
  What an abort undoes: a write made with the session is dropped, a write made without it
  stays.
\<close>

lemma abortTransaction_run_write:
  "durable (abortTransaction (run_write True w c)) = durable c"
  "durable (abortTransaction (run_write False w c)) = w (durable c)"
  by (simp_all add: abortTransaction_def run_write_def)

lemma commitTransaction_run_write:
  "durable (commitTransaction (run_write True w \<lparr>durable = d, pending = []\<rparr>)) = w d"
  by (simp add: commitTransaction_def run_write_def txn_view_def)

lemma merge_callback_no_fault:
  "merge_callback None primaryMovie ids \<lparr>durable = s, pending = []\<rparr> =
     (let rs1 = merge_moved s (movieId primaryMovie) ids;
          allRatings = coll_find (\<lambda>r. r_movieId r = movieId primaryMovie) rs1;
          avg = merge_averageRating allRatings;
          cnt = length allRatings
      in (Inr (length (merge_ratingsToMove s ids), avg, cnt),
          \<lparr>durable = s\<lparr>ratings := rs1,
                 movies := coll_deleteMany (\<lambda>m. movieId m \<in> set ids)
                   (coll_updateOne (\<lambda>m. movieId m = movieId primaryMovie)
                      (\<lambda>m. m\<lparr>averageRating := avg, ratingCount := cnt\<rparr>) (movies s))\<rparr>,
           pending = []\<rparr>))"
  by (simp add: merge_callback_def run_read_def run_write_def Let_def merge_moved_def
        merge_ratingsToMove_def)

lemma merge_callback_Inr:
  assumes "merge_callback fault primaryMovie ids c = (Inr v, c')"
  shows "merge_callback None primaryMovie ids c = (Inr v, c')"
proof (cases fault)
  case None
  with assms show ?thesis by simp
next
  case (Some op)
  show ?thesis
  proof (cases op)
    case FindRatingsToMove
    with assms Some show ?thesis by (simp add: merge_callback_def)
  next
    case BulkWrite
    with assms Some show ?thesis
      by (simp add: merge_callback_def Let_def split: if_splits)
  next
    case FindAllRatings
    with assms Some show ?thesis by (simp add: merge_callback_def Let_def)
  next
    case UpdatePrimary
    with assms Some show ?thesis by (simp add: merge_callback_def Let_def)
  next
    case DeleteDuplicates
    with assms Some show ?thesis by (simp add: merge_callback_def Let_def)
  next
    case CommitTransaction
    with assms Some show ?thesis by (simp add: merge_callback_def Let_def)
  qed
qed

lemma mergeDuplicates_Merged:
  assumes "mergeDuplicates fault s titleArg yearArg = (Merged p n avg cnt, s')"
  shows "2 \<le> length (merge_movies s titleArg yearArg) \<and>
         p = movieId (hd (merge_movies s titleArg yearArg)) \<and>
         n = length (merge_ratingsToMove s (merge_duplicateMovieIds s titleArg yearArg)) \<and>
         ratings s' = merge_moved s p (merge_duplicateMovieIds s titleArg yearArg) \<and>
         avg = merge_averageRating (ratings_of p s') \<and>
         cnt = length (ratings_of p s') \<and>
         movies s' = coll_deleteMany (\<lambda>m. movieId m \<in> set (merge_duplicateMovieIds s titleArg yearArg))
                   (coll_updateOne (\<lambda>m. movieId m = p)
                      (\<lambda>m. m\<lparr>averageRating := avg, ratingCount := cnt\<rparr>) (movies s)) \<and>
         tags s' = tags s \<and> links s' = links s"
proof -
  define found where "found = merge_movies s titleArg yearArg"
  define ids where "ids = map movieId (tl found)"
  from assms have args: "titleArg \<noteq> []" "yearArg \<noteq> []"
    by (auto simp: mergeDuplicates_def)
  with assms have len: "\<not> length found < 2"
    by (auto simp: mergeDuplicates_def found_def Let_def)
  obtain res c where w: "withTransaction fault (merge_callback fault (hd found) ids)
                       \<lparr>durable = s, pending = []\<rparr> = (res, c)"
    by (cases "withTransaction fault (merge_callback fault (hd found) ids)
                       \<lparr>durable = s, pending = []\<rparr>")
  from assms args len w have res: "res = Inr (n, avg, cnt)" "p = movieId (hd found)" "s' = durable c"
    by (auto simp: mergeDuplicates_def found_def [symmetric] ids_def [symmetric] Let_def
             split: sum.splits prod.splits)
  obtain r1 c1 where cb: "merge_callback fault (hd found) ids \<lparr>durable = s, pending = []\<rparr> = (r1, c1)"
    by (cases "merge_callback fault (hd found) ids \<lparr>durable = s, pending = []\<rparr>")
  from w res cb have r1: "r1 = Inr (n, avg, cnt)" "c = commitTransaction c1"
    by (auto simp: withTransaction_def split: sum.splits if_splits)
  from merge_callback_Inr [OF cb [unfolded r1]]
  have "merge_callback None (hd found) ids \<lparr>durable = s, pending = []\<rparr> = (Inr (n, avg, cnt), c1)" .
  then show ?thesis
    unfolding merge_callback_no_fault Let_def
    using res r1 len
    by (auto simp: commitTransaction_def txn_view_def found_def ids_def ratings_of_def
          merge_duplicateMovieIds_def)
qed

lemma title_year_filter_update:
  "title_year_filter t y (m\<lparr>averageRating := a, ratingCount := c\<rparr>) \<longleftrightarrow> title_year_filter t y m"
  by (simp add: title_year_filter_def split: option.splits)

lemma merge_movies_ids:
  assumes "2 \<le> length (merge_movies s t y)"
  shows "mset (map movieId (filter (title_year_filter t y) (movies s))) =
           add_mset (movieId (hd (merge_movies s t y))) (mset (merge_duplicateMovieIds s t y))"
proof -
  define found where "found = merge_movies s t y"
  from assms have "found \<noteq> []" by (auto simp: found_def)
  then have split: "found = hd found # tl found" by simp
  have "mset (map movieId (filter (title_year_filter t y) (movies s))) = mset (map movieId found)"
    by (simp add: found_def merge_movies_def coll_find_def)
  also have "\<dots> = mset (map movieId (hd found # tl found))"
    using split by simp
  finally show ?thesis
    by (simp add: found_def merge_duplicateMovieIds_def)
qed

lemma merged_group_small:
  assumes "2 \<le> length (merge_movies s t y)"
      and "movies s' = coll_deleteMany (\<lambda>m. movieId m \<in> set (merge_duplicateMovieIds s t y))
                   (coll_updateOne (\<lambda>m. movieId m = p)
                      (\<lambda>m. m\<lparr>averageRating := avg, ratingCount := cnt\<rparr>) (movies s))"
  shows "length (merge_movies s' t y) \<le> 1"
proof -
  define ids where "ids = merge_duplicateMovieIds s t y"
  define Q where "Q = (\<lambda>m. movieId m \<notin> set ids \<and> title_year_filter t y m)"
  define upd where "upd = (\<lambda>m::movie. m\<lparr>averageRating := avg, ratingCount := cnt\<rparr>)"
  define ks where "ks = map movieId (filter (title_year_filter t y) (movies s))"
  have "length (merge_movies s' t y) =
          length (map movieId (filter Q (coll_updateOne (\<lambda>m. movieId m = p) upd (movies s))))"
    by (simp add: merge_movies_def coll_find_def assms(2) coll_deleteMany_def Q_def ids_def upd_def
          conj_commute)
  also have "map movieId (filter Q (coll_updateOne (\<lambda>m. movieId m = p) upd (movies s))) =
          map movieId (filter Q (movies s))"
    by (rule map_filter_updateOne) (simp_all add: upd_def Q_def title_year_filter_update)
  also have "map movieId (filter Q (movies s)) = filter (\<lambda>k. k \<notin> set ids) ks"
    by (simp add: ks_def Q_def filter_map comp_def conj_commute)
  also have "length (filter (\<lambda>k. k \<notin> set ids) ks) = size (filter_mset (\<lambda>k. k \<notin> set ids) (mset ks))"
    by (simp flip: mset_filter)
  also have "mset ks = add_mset (movieId (hd (merge_movies s t y))) (mset ids)"
    unfolding ks_def ids_def by (rule merge_movies_ids [OF assms(1)])
  also have "size (filter_mset (\<lambda>k. k \<notin> set ids)
                 (add_mset (movieId (hd (merge_movies s t y))) (mset ids))) \<le> 1"
    by (simp flip: mset_filter)
  finally show ?thesis .
qed

lemma merge_callback_frame:
  assumes "merge_callback fault primaryMovie ids c = (res, c')"
  shows "tags (durable c') = tags (durable c) \<and> links (durable c') = links (durable c) \<and>
         pending c' = pending c"
  using assms
  by (auto simp: merge_callback_def run_write_def Let_def split: if_splits)

lemma withTransaction_frame:
  assumes "withTransaction fault (merge_callback fault primaryMovie ids) \<lparr>durable = s, pending = []\<rparr> = (res, c')"
  shows "tags (durable c') = tags s \<and> links (durable c') = links s"
proof -
  obtain r1 c1 where cb: "merge_callback fault primaryMovie ids \<lparr>durable = s, pending = []\<rparr> = (r1, c1)"
    by (cases "merge_callback fault primaryMovie ids \<lparr>durable = s, pending = []\<rparr>")
  from merge_callback_frame [OF cb] have
    "tags (durable c1) = tags s" "links (durable c1) = links s" "pending c1 = []"
    by simp_all
  moreover from assms cb have "c' = abortTransaction c1 \<or> c' = commitTransaction c1"
    by (auto simp: withTransaction_def split: sum.splits if_splits)
  ultimately show ?thesis
    by (auto simp: abortTransaction_def commitTransaction_def txn_view_def)
qed

lemma mergeDuplicates_frame:
  "tags (snd (mergeDuplicates fault s titleArg yearArg)) = tags s \<and>
   links (snd (mergeDuplicates fault s titleArg yearArg)) = links s"
proof (cases "titleArg = [] \<or> yearArg = [] \<or> length (merge_movies s titleArg yearArg) < 2")
  case True
  then show ?thesis by (auto simp: mergeDuplicates_def Let_def)
next
  case False
  define found where "found = merge_movies s titleArg yearArg"
  obtain res c where w: "withTransaction fault
        (merge_callback fault (hd found) (map movieId (tl found))) \<lparr>durable = s, pending = []\<rparr> = (res, c)"
    by (cases "withTransaction fault
        (merge_callback fault (hd found) (map movieId (tl found))) \<lparr>durable = s, pending = []\<rparr>")
  from False w have "snd (mergeDuplicates fault s titleArg yearArg) = durable c"
    by (auto simp: mergeDuplicates_def Let_def found_def [symmetric] split: sum.splits prod.splits)
  with withTransaction_frame [OF w] show ?thesis by simp
qed

lemma ratings_bulkWrite_distinct:
  assumes "distinct (map r_id rs)"
  shows "ratings_bulkWrite p mv rs =
           map (\<lambda>r. if r_id r \<in> r_id ` set mv then r\<lparr>r_movieId := p\<rparr> else r) rs"
  using assms
proof (induction mv arbitrary: rs)
  case Nil
  show ?case by (simp add: ratings_bulkWrite_def)
next
  case (Cons m mv)
  define rs1 where "rs1 = map (\<lambda>r. if r_id r = r_id m then r\<lparr>r_movieId := p\<rparr> else r) rs"
  have step: "coll_updateOne (\<lambda>r. r_id r = r_id m) (\<lambda>r. r\<lparr>r_movieId := p\<rparr>) rs = rs1"
    unfolding rs1_def by (rule coll_updateOne_distinct [OF Cons.prems])
  have "map r_id rs1 = map r_id rs"
    by (simp add: rs1_def comp_def if_distrib cong: if_cong)
  with Cons.prems have "distinct (map r_id rs1)" by simp
  from Cons.IH [OF this]
  have "ratings_bulkWrite p mv rs1 =
          map (\<lambda>r. if r_id r \<in> r_id ` set mv then r\<lparr>r_movieId := p\<rparr> else r) rs1" .
  moreover have "ratings_bulkWrite p (m # mv) rs = ratings_bulkWrite p mv rs1"
    by (simp add: ratings_bulkWrite_def step)
  moreover have "map (\<lambda>r. if r_id r \<in> r_id ` set mv then r\<lparr>r_movieId := p\<rparr> else r) rs1 =
        map (\<lambda>r. if r_id r \<in> r_id ` set (m # mv) then r\<lparr>r_movieId := p\<rparr> else r) rs"
    unfolding rs1_def by (rule nth_equalityI) auto
  ultimately show ?case by simp
qed

lemma merge_moved_distinct:
  assumes d: "distinct (map r_id (ratings s))"
  shows "merge_moved s p ids =
           map (\<lambda>r. if r_movieId r \<in> set ids then r\<lparr>r_movieId := p\<rparr> else r) (ratings s)"
proof (cases "merge_ratingsToMove s ids = []")
  case True
  then have "\<forall>r \<in> set (ratings s). r_movieId r \<notin> set ids"
    by (simp add: merge_ratingsToMove_def coll_find_def filter_empty_conv)
  then have "map (\<lambda>r. if r_movieId r \<in> set ids then r\<lparr>r_movieId := p\<rparr> else r) (ratings s) = ratings s"
    by (intro map_idI) simp
  with True show ?thesis by (simp add: merge_moved_def)
next
  case False
  from d have inj: "inj_on r_id (set (ratings s))" by (simp add: distinct_map)
  have "(r_id r \<in> r_id ` set (merge_ratingsToMove s ids)) = (r_movieId r \<in> set ids)"
    if r: "r \<in> set (ratings s)" for r
  proof
    assume "r_id r \<in> r_id ` set (merge_ratingsToMove s ids)"
    then obtain r' where r': "r' \<in> set (ratings s)" "r_movieId r' \<in> set ids" "r_id r = r_id r'"
      by (auto simp: merge_ratingsToMove_def coll_find_def)
    with inj r have "r = r'" by (auto dest: inj_onD)
    with r' show "r_movieId r \<in> set ids" by simp
  next
    assume "r_movieId r \<in> set ids"
    with r show "r_id r \<in> r_id ` set (merge_ratingsToMove s ids)"
      by (auto simp: merge_ratingsToMove_def coll_find_def)
  qed
  then have "map (\<lambda>r. if r_id r \<in> r_id ` set (merge_ratingsToMove s ids)
                       then r\<lparr>r_movieId := p\<rparr> else r) (ratings s) =
             map (\<lambda>r. if r_movieId r \<in> set ids then r\<lparr>r_movieId := p\<rparr> else r) (ratings s)"
    by (intro map_cong) simp_all
  with False ratings_bulkWrite_distinct [OF d, of p "merge_ratingsToMove s ids"]
  show ?thesis by (simp add: merge_moved_def)
qed

lemma merge_movies_distinct:
  assumes "distinct (map movieId (movies s))"
  shows "distinct (map movieId (merge_movies s t y))"
proof -
  have "mset (map movieId (merge_movies s t y)) =
          mset (map movieId (filter (title_year_filter t y) (movies s)))"
    by (simp add: merge_movies_def coll_find_def)
  moreover from assms have "distinct (map movieId (filter (title_year_filter t y) (movies s)))"
    by (rule distinct_map_filter)
  ultimately show ?thesis
    using mset_eq_imp_distinct_iff by blast
qed

lemma merge_movies_subset: "set (merge_movies s t y) \<subseteq> set (movies s)"
  by (auto simp: merge_movies_def coll_find_def)

text \<open>
  Conservation in a committed merge, for a database in which the store keeps \<open>_id\<close> unique
  in \<open>ratings\<close> and the unique index on \<open>movieId\<close> (server/db/import.js, createIndexes)
  holds in \<open>movies\<close>: every rating of a duplicate is rebound to the primary movie and no
  other rating changes; the primary movie owns as many ratings as the movies of the group
  owned together; the number reported as moved is the number the duplicates owned; and the
  pair stored on the primary movie is the one the merge computes, without rounding, from
  the ratings bound to it.
\<close>

lemma mergeDuplicates_conservation:
  assumes run: "mergeDuplicates fault s t y = (Merged p n avg cnt, s')"
      and rid: "distinct (map r_id (ratings s))"
      and mid: "distinct (map movieId (movies s))"
  shows "ratings s' =
           map (\<lambda>r. if r_movieId r \<in> set (merge_duplicateMovieIds s t y)
                     then r\<lparr>r_movieId := p\<rparr> else r) (ratings s)"
    and "length (ratings_of p s') =
           sum_list (map (\<lambda>m. length (ratings_of (movieId m) s)) (merge_movies s t y))"
    and "n = sum_list (map (\<lambda>d. length (ratings_of d s)) (merge_duplicateMovieIds s t y))"
    and "stored_aggregate p s' = Some (merge_aggregate (ratings_of p s'))"
proof -
  define found where "found = merge_movies s t y"
  define ids where "ids = merge_duplicateMovieIds s t y"
  define g where "g = (\<lambda>r::rating_doc. if r_movieId r \<in> set ids then r\<lparr>r_movieId := p\<rparr> else r)"
  note m = mergeDuplicates_Merged [OF run, folded found_def ids_def]
  from m have len: "2 \<le> length found" and p: "p = movieId (hd found)" by simp_all
  from len have ne: "found \<noteq> []" by auto
  then have "found = hd found # tl found" by simp
  then have "map movieId found = movieId (hd found) # map movieId (tl found)"
    by (metis list.simps(9))
  then have keys: "map movieId found = p # ids"
    by (simp add: p ids_def merge_duplicateMovieIds_def found_def)
  from merge_movies_distinct [OF mid, of t y] keys
  have pid: "p \<notin> set ids" and dids: "distinct ids" and dkeys: "distinct (p # ids)"
    by (simp_all add: found_def)
  from m merge_moved_distinct [OF rid, of p ids]
  show r': "ratings s' = map (\<lambda>r. if r_movieId r \<in> set ids then r\<lparr>r_movieId := p\<rparr> else r) (ratings s)"
    by simp
  have "ratings_of p s' = filter (\<lambda>r. r_movieId r = p) (map g (ratings s))"
    by (simp add: ratings_of_def coll_find_def r' g_def)
  then have "length (ratings_of p s') = length (filter (\<lambda>r. r_movieId (g r) = p) (ratings s))"
    by (simp add: filter_map comp_def)
  also have "(\<lambda>r. r_movieId (g r) = p) = (\<lambda>r. r_movieId r \<in> set (p # ids))"
    by (auto simp: g_def fun_eq_iff)
  also have "length (filter (\<lambda>r. r_movieId r \<in> set (p # ids)) (ratings s)) =
      sum_list (map (\<lambda>i. length (filter (\<lambda>r. r_movieId r = i) (ratings s))) (p # ids))"
    by (rule length_filter_keys [OF dkeys])
  also have "\<dots> = sum_list (map (\<lambda>i. length (ratings_of i s)) (map movieId found))"
    by (simp add: keys ratings_of_def coll_find_def)
  finally show "length (ratings_of p s') =
           sum_list (map (\<lambda>m. length (ratings_of (movieId m) s)) found)"
    by (simp add: comp_def)
  from m have "n = length (filter (\<lambda>r. r_movieId r \<in> set ids) (ratings s))"
    by (simp add: merge_ratingsToMove_def coll_find_def)
  also have "\<dots> = sum_list (map (\<lambda>i. length (filter (\<lambda>r. r_movieId r = i) (ratings s))) ids)"
    by (rule length_filter_keys [OF dids])
  finally show "n = sum_list (map (\<lambda>d. length (ratings_of d s)) ids)"
    by (simp add: ratings_of_def coll_find_def)
  from ne have "hd found \<in> set (movies s)"
    using merge_movies_subset [of s t y] by (auto simp: found_def)
  from coll_findOne_member [OF this, of "\<lambda>m. movieId m = p"] p
  obtain m0 where f: "coll_findOne (\<lambda>m. movieId m = p) (movies s) = Some m0" by auto
  from m have ms: "movies s' = coll_deleteMany (\<lambda>m. movieId m \<in> set ids)
       (coll_updateOne (\<lambda>m. movieId m = p)
         (\<lambda>m. m\<lparr>averageRating := avg, ratingCount := cnt\<rparr>) (movies s))"
    by simp
  have "coll_findOne (\<lambda>m. movieId m = p) (movies s') =
          coll_findOne (\<lambda>m. movieId m = p)
            (coll_updateOne (\<lambda>m. movieId m = p)
               (\<lambda>m. m\<lparr>averageRating := avg, ratingCount := cnt\<rparr>) (movies s))"
    unfolding ms by (rule coll_findOne_deleteMany_other) (use pid in auto)
  also have "\<dots> = Some (m0\<lparr>averageRating := avg, ratingCount := cnt\<rparr>)"
    by (rule coll_findOne_updateOne [OF f]) simp
  finally show "stored_aggregate p s' = Some (merge_aggregate (ratings_of p s'))"
    using m by (simp add: stored_aggregate_def merge_aggregate_def)
qed

lemma mergeDuplicates_conservation_scenario_B:
  "length (ratings_of 10 scenario_B_merged) = 1 + 2 \<and>
   stored_aggregate 10 scenario_B_merged = Some (merge_aggregate (ratings_of 10 scenario_B_merged))"
proof -
  have run: "mergeDuplicates None scenario_B ''Alpha'' ''1999'' =
               (Merged 10 2 (Num (11 / 3)) 3, scenario_B_merged)"
    by code_simp
  have rid: "distinct (map r_id (ratings scenario_B))" by code_simp
  have mid: "distinct (map movieId (movies scenario_B))" by code_simp
  have "sum_list (map (\<lambda>m. length (ratings_of (movieId m) scenario_B))
          (merge_movies scenario_B ''Alpha'' ''1999'')) = 1 + 2"
    by code_simp
  with mergeDuplicates_conservation(2,4) [OF run rid mid] show ?thesis by simp
qed

text \<open>Line 15 of \<open>findDuplicates\<close> selects the movies the merge works on.\<close>

lemma findDuplicates_line15_merge_movies:
  "set (findDuplicates_line15 s t y) = set (merge_movies s t y)"
  by (simp add: findDuplicates_line15_def merge_movies_def)

section \<open>The average of the submission on rating values of the data model\<close>






lemma post_movies_rate_run:
  assumes "parseInt (rq_id rq) = Some mid"
      and "ToBoolean (rq_userId rq)" and "parseInt (ToString (rq_userId rq)) = Some u"
      and "ToBoolean (rq_rating rq)" and "parseFloat (ToString (rq_rating rq)) = Num v"
      and "1 / 2 \<le> v" and "v \<le> 5"
      and "coll_findOne (\<lambda>m. movieId m = mid) (movies s) = Some mv"
      and "map r_rating (ratings_of mid s) = vs"
      and "fresh_id (ratings s) = i"
      and "rate_average (vs @ [v]) = avg"
  shows "post_movies_rate s now rq =
     (Status201 \<lparr>r_id = i, r_userId = u, r_movieId = mid, r_rating = v,
                  r_timestamp = now div 1000\<rparr> mid avg (Suc (length vs)),
      s\<lparr>movies := coll_updateOne (\<lambda>m. movieId m = mid)
                      (\<lambda>m. m\<lparr>averageRating := avg, ratingCount := Suc (length vs)\<rparr>)
                      (movies s),
         ratings := ratings s @
           [\<lparr>r_id = i, r_userId = u, r_movieId = mid, r_rating = v,
              r_timestamp = now div 1000\<rparr>]\<rparr>)"
proof -
  define r where "r = \<lparr>r_id = i, r_userId = u, r_movieId = mid, r_rating = v,
                        r_timestamp = now div 1000\<rparr>"
  have all: "coll_find (\<lambda>r. r_movieId r = mid) (ratings s @ [r]) = ratings_of mid s @ [r]"
    by (simp add: ratings_of_def coll_find_def r_def)
  have vals: "map r_rating (ratings_of mid s @ [r]) = vs @ [v]"
    using assms(9) by (simp add: r_def)
  have len0: "length (ratings_of mid s) = length vs"
    using assms(9) by (metis length_map)
  have avg: "rate_averageRating (ratings_of mid s @ [r]) = avg"
    by (simp only: rate_averageRating_values vals assms(11))
  show ?thesis
    using post_movies_rate_accept [OF assms(1-8), of now]
    by (simp add: Let_def assms(10) r_def [symmetric] all avg len0)
qed

section \<open>Sequences of submissions and runs of the examples\<close>



text \<open>Lines 15 and 16 of \<open>findDuplicates\<close> are different queries.\<close>

lemma findDuplicates_line16_title_only:
  "findDuplicates_line16 scenario_no_year ''Alpha'' ''1999'' =
     [mk_movie 10 ''Alpha (1999)'' (Some 1999) (Num 0) 0,
      mk_movie 11 ''Alpha (1999)'' None (Num 0) 0] \<and>
   findDuplicates_line15 scenario_no_year ''Alpha'' ''1999'' =
     [mk_movie 10 ''Alpha (1999)'' (Some 1999) (Num 0) 0]"
  by code_simp

lemma post_movies_rate_run_facts:
  assumes "parseInt (rq_id rq) = Some mid"
      and "ToBoolean (rq_userId rq)" and "parseInt (ToString (rq_userId rq)) = Some u"
      and "ToBoolean (rq_rating rq)" and "parseFloat (ToString (rq_rating rq)) = Num v"
      and "1 / 2 \<le> v" and "v \<le> 5"
      and "coll_findOne (\<lambda>m. movieId m = mid) (movies s) = Some mv"
      and "map r_rating (ratings_of mid s) = vs"
      and "fresh_id (ratings s) = i"
      and "rate_average (vs @ [v]) = avg"
  shows "fst (post_movies_rate s now rq) =
           Status201 \<lparr>r_id = i, r_userId = u, r_movieId = mid, r_rating = v,
                        r_timestamp = now div 1000\<rparr> mid avg (Suc (length vs))"
    and "ratings (snd (post_movies_rate s now rq)) =
           ratings s @ [\<lparr>r_id = i, r_userId = u, r_movieId = mid, r_rating = v,
                           r_timestamp = now div 1000\<rparr>]"
    and "map r_rating (ratings_of mid (snd (post_movies_rate s now rq))) = vs @ [v]"
    and "coll_findOne (\<lambda>m. movieId m = mid) (movies (snd (post_movies_rate s now rq))) =
           Some (mv\<lparr>averageRating := avg, ratingCount := Suc (length vs)\<rparr>)"
    and "stored_aggregate mid (snd (post_movies_rate s now rq)) = Some (avg, Suc (length vs))"
proof -
  note run = post_movies_rate_run [OF assms, of now]
  show "fst (post_movies_rate s now rq) =
           Status201 \<lparr>r_id = i, r_userId = u, r_movieId = mid, r_rating = v,
                        r_timestamp = now div 1000\<rparr> mid avg (Suc (length vs))"
    by (simp add: run)
  show "ratings (snd (post_movies_rate s now rq)) =
           ratings s @ [\<lparr>r_id = i, r_userId = u, r_movieId = mid, r_rating = v,
                           r_timestamp = now div 1000\<rparr>]"
    by (simp add: run)
  show "map r_rating (ratings_of mid (snd (post_movies_rate s now rq))) = vs @ [v]"
    using assms(9) by (simp add: run ratings_of_def coll_find_def)
  have "coll_findOne (\<lambda>m. movieId m = mid)
          (coll_updateOne (\<lambda>m. movieId m = mid)
             (\<lambda>m. m\<lparr>averageRating := avg, ratingCount := Suc (length vs)\<rparr>) (movies s)) =
        Some (mv\<lparr>averageRating := avg, ratingCount := Suc (length vs)\<rparr>)"
    by (rule coll_findOne_updateOne [OF assms(8)]) simp
  then show f: "coll_findOne (\<lambda>m. movieId m = mid) (movies (snd (post_movies_rate s now rq))) =
           Some (mv\<lparr>averageRating := avg, ratingCount := Suc (length vs)\<rparr>)"
    by (simp add: run)
  show "stored_aggregate mid (snd (post_movies_rate s now rq)) = Some (avg, Suc (length vs))"
    by (simp add: stored_aggregate_def f)
qed

text \<open>The runs of the examples.\<close>

lemma run_A:
  "fst (post_movies_rate scenario_A 5000 rq_A) =
     Status201 \<lparr>r_id = 4, r_userId = 9, r_movieId = 1, r_rating = 9 / 2, r_timestamp = 5\<rparr>
       1 (Num (413 / 100)) 4"
  "ratings (snd (post_movies_rate scenario_A 5000 rq_A)) =
     ratings scenario_A @
       [\<lparr>r_id = 4, r_userId = 9, r_movieId = 1, r_rating = 9 / 2, r_timestamp = 5\<rparr>]"
  "map r_rating (ratings_of 1 (snd (post_movies_rate scenario_A 5000 rq_A))) = [4, 5, 3, 9 / 2]"
  "coll_findOne (\<lambda>m. movieId m = 1) (movies (snd (post_movies_rate scenario_A 5000 rq_A))) =
     Some (mk_movie 1 ''Heat (1995)'' (Some 1995) (Num (413 / 100)) 4)"
  "stored_aggregate 1 (snd (post_movies_rate scenario_A 5000 rq_A)) = Some (Num (413 / 100), 4)"
proof -
  have h: "parseInt (rq_id rq_A) = Some 1" "ToBoolean (rq_userId rq_A)"
    "parseInt (ToString (rq_userId rq_A)) = Some 9" "ToBoolean (rq_rating rq_A)"
    "parseFloat (ToString (rq_rating rq_A)) = Num (9 / 2)" "(1 / 2 :: rat) \<le> 9 / 2"
    "(9 / 2 :: rat) \<le> 5"
    "coll_findOne (\<lambda>m. movieId m = 1) (movies scenario_A) =
       Some (mk_movie 1 ''Heat (1995)'' (Some 1995) (Num 4) 3)"
    "map r_rating (ratings_of 1 scenario_A) = [4, 5, 3]"
    "fresh_id (ratings scenario_A) = 4"
    "rate_average ([4, 5, 3] @ [9 / 2]) = Num (413 / 100)"
    by code_simp+
  note f = post_movies_rate_run_facts [OF h, of 5000]
  have upd: "(mk_movie 1 ''Heat (1995)'' (Some 1995) (Num 4) 3)
       \<lparr>averageRating := Num (413 / 100), ratingCount := Suc (length [4, 5, 3 :: rat])\<rparr> =
     mk_movie 1 ''Heat (1995)'' (Some 1995) (Num (413 / 100)) 4"
    by (simp add: mk_movie_def)
  show "fst (post_movies_rate scenario_A 5000 rq_A) =
     Status201 \<lparr>r_id = 4, r_userId = 9, r_movieId = 1, r_rating = 9 / 2, r_timestamp = 5\<rparr>
       1 (Num (413 / 100)) 4"
    using f(1) by simp
  show "ratings (snd (post_movies_rate scenario_A 5000 rq_A)) =
     ratings scenario_A @
       [\<lparr>r_id = 4, r_userId = 9, r_movieId = 1, r_rating = 9 / 2, r_timestamp = 5\<rparr>]"
    using f(2) by simp
  show "map r_rating (ratings_of 1 (snd (post_movies_rate scenario_A 5000 rq_A))) = [4, 5, 3, 9 / 2]"
    using f(3) by simp
  show "coll_findOne (\<lambda>m. movieId m = 1) (movies (snd (post_movies_rate scenario_A 5000 rq_A))) =
     Some (mk_movie 1 ''Heat (1995)'' (Some 1995) (Num (413 / 100)) 4)"
    using f(4) by (simp only: upd)
  show "stored_aggregate 1 (snd (post_movies_rate scenario_A 5000 rq_A)) = Some (Num (413 / 100), 4)"
    using f(5) by simp
qed



section \<open>Claims on the rating submission\<close>

text \<open>
  Claim C8, scenario A: when the rating events bound to an existing movie have the values
  4.0, 5.0 and 3.0, a request for that movie whose \<open>userId\<close> passes line 174 and whose
  rating reads as 4.5 is answered with status 201, the average 4.13 and the count 4, and
  that pair is stored on the movie.
\<close>

theorem C8_scenario_A:
  assumes "parseInt (rq_id rq) = Some E"
      and "coll_findOne (\<lambda>m. movieId m = E) (movies s) = Some mv"
      and "map r_rating (ratings_of E s) = [4, 5, 3]"
      and "ToBoolean (rq_userId rq)" and "parseInt (ToString (rq_userId rq)) = Some u"
      and "ToBoolean (rq_rating rq)" and "parseFloat (ToString (rq_rating rq)) = Num (9 / 2)"
  shows "\<exists>r s'. post_movies_rate s now rq = (Status201 r E (Num (413 / 100)) 4, s') \<and>
           stored_aggregate E s' = Some (Num (413 / 100), 4)"
proof -
  define r where "r = \<lparr>r_id = fresh_id (ratings s), r_userId = u, r_movieId = E,
                        r_rating = 9 / 2, r_timestamp = now div 1000\<rparr>"
  define allRatings where "allRatings = coll_find (\<lambda>r. r_movieId r = E) (ratings s @ [r])"
  have "allRatings = ratings_of E s @ [r]"
    by (simp add: allRatings_def ratings_of_def coll_find_def r_def)
  with assms(3) have vals: "map r_rating allRatings = [4, 5, 3, 9 / 2]"
    by (simp add: r_def)
  note agg = scenario_A_average [OF vals]
  have run: "post_movies_rate s now rq =
      (Status201 r E (Num (413 / 100)) 4,
       s\<lparr>movies := coll_updateOne (\<lambda>m. movieId m = E)
                      (\<lambda>m. m\<lparr>averageRating := Num (413 / 100), ratingCount := 4\<rparr>) (movies s),
         ratings := ratings s @ [r]\<rparr>)"
    using post_movies_rate_accept [OF assms(1) assms(4) assms(5) assms(6) assms(7) _ _ assms(2), of now]
      agg
    by (simp add: Let_def r_def [symmetric] allRatings_def [symmetric])
  have "coll_findOne (\<lambda>m. movieId m = E)
          (coll_updateOne (\<lambda>m. movieId m = E)
             (\<lambda>m. m\<lparr>averageRating := Num (413 / 100), ratingCount := 4\<rparr>) (movies s)) =
        Some (mv\<lparr>averageRating := Num (413 / 100), ratingCount := 4\<rparr>)"
    by (rule coll_findOne_updateOne [OF assms(2)]) simp
  then have "stored_aggregate E
       (s\<lparr>movies := coll_updateOne (\<lambda>m. movieId m = E)
                      (\<lambda>m. m\<lparr>averageRating := Num (413 / 100), ratingCount := 4\<rparr>) (movies s),
         ratings := ratings s @ [r]\<rparr>) = Some (Num (413 / 100), 4)"
    by (simp add: stored_aggregate_def)
  with run show ?thesis by blast
qed

theorem C8_scenario_A_witness:
  "\<exists>r s'. post_movies_rate scenario_A 5000 rq_A = (Status201 r 1 (Num (413 / 100)) 4, s') \<and>
           stored_aggregate 1 s' = Some (Num (413 / 100), 4)"
proof (rule C8_scenario_A [where u = 9 and mv = "mk_movie 1 ''Heat (1995)'' (Some 1995) (Num 4) 3"])
  show "parseInt (rq_id rq_A) = Some 1" by code_simp
  show "coll_findOne (\<lambda>m. movieId m = 1) (movies scenario_A) =
          Some (mk_movie 1 ''Heat (1995)'' (Some 1995) (Num 4) 3)" by code_simp
  show "map r_rating (ratings_of 1 scenario_A) = [4, 5, 3]" by code_simp
  show "ToBoolean (rq_userId rq_A)" by code_simp
  show "parseInt (ToString (rq_userId rq_A)) = Some 9" by code_simp
  show "ToBoolean (rq_rating rq_A)" by code_simp
  show "parseFloat (ToString (rq_rating rq_A)) = Num (9 / 2)" by code_simp
qed

text \<open>
  Claim C9: in a submission that reaches the division, the rating event just inserted is
  among the events read back, so the count is at least 1 and the average is a number. The
  submission has no guard for the empty set, on which its formula gives \<open>NaN\<close>; the merge
  has one and gives 0.
\<close>

theorem C9_rate_count_positive: 
  assumes "post_movies_rate s now rq = (Status201 r mid avg cnt, s')"
  shows "r \<in> set (ratings_of mid s') \<and> 1 \<le> cnt \<and> avg \<noteq> NaN \<and>
         rate_averageRating [] = NaN \<and> merge_averageRating [] = Num 0"
proof -
  from post_movies_rate_201 [OF assms] have
    rs: "ratings s' = ratings s @ [r]" and
    a: "avg = rate_averageRating (ratings_of mid s')" and
    c: "cnt = length (ratings_of mid s')" and
    "r_movieId r = mid"
    by auto
  then have mem: "r \<in> set (ratings_of mid s')"
    by (simp add: ratings_of_def coll_find_def)
  then have ne: "ratings_of mid s' \<noteq> []" by auto
  then have "1 \<le> cnt" unfolding c by (simp add: Suc_le_eq)
  moreover from ne have "avg \<noteq> NaN"
    unfolding a by (simp add: rate_averageRating_def Let_def)
  moreover have "rate_averageRating [] = NaN" "merge_averageRating [] = Num 0"
    by (simp_all add: rate_averageRating_def merge_averageRating_def)
  ultimately show ?thesis using mem by simp
qed

theorem C9_rate_count_positive_witness:
  "fst (post_movies_rate scenario_A 5000 rq_A) =
     Status201 \<lparr>r_id = 4, r_userId = 9, r_movieId = 1, r_rating = 9 / 2, r_timestamp = 5\<rparr>
       1 (Num (413 / 100)) 4 \<and>
   \<lparr>r_id = 4, r_userId = 9, r_movieId = 1, r_rating = 9 / 2, r_timestamp = 5\<rparr>
     \<in> set (ratings_of 1 (snd (post_movies_rate scenario_A 5000 rq_A))) \<and>
   (1::nat) \<le> 4 \<and> Num (413 / 100) \<noteq> NaN"
proof -
  note f = run_A(1)
  then have run: "post_movies_rate scenario_A 5000 rq_A =
     (Status201 \<lparr>r_id = 4, r_userId = 9, r_movieId = 1, r_rating = 9 / 2, r_timestamp = 5\<rparr>
        1 (Num (413 / 100)) 4,
      snd (post_movies_rate scenario_A 5000 rq_A))"
    by (simp add: prod_eq_iff)
  from C9_rate_count_positive [OF run] f show ?thesis by simp
qed







section \<open>Claims on the two aggregate computations\<close>

text \<open>
  Claim C1 says that the submission and the merge compute the same pair (average rounded to
  two decimals, count) from the same ratings. On the ratings 4.0, 5.0, 3.0 and 4.5 the
  submission computes the average 4.13, rounded, and the merge computes 4.125, not rounded:
  the two pairs differ.
\<close>

theorem C1_aggregates_differ:
  "rate_aggregate ratings_A4 = (Num (413 / 100), 4) \<and>
   merge_aggregate ratings_A4 = (Num (33 / 8), 4) \<and>
   rate_aggregate ratings_A4 \<noteq> merge_aggregate ratings_A4"
  by code_simp

section \<open>Claims on the merge\<close>

text \<open>
  Claim C6, merge idempotence: when a run of the merge ends committed, a second run with the
  same title and year ends with "No duplicates found." and leaves the database as the first
  run left it, whatever fault is set for the second run.
\<close>

theorem C6_merge_idempotent:
  assumes "mergeDuplicates fault1 s titleArg yearArg = (Merged p n avg cnt, s')"
  shows "mergeDuplicates fault2 s' titleArg yearArg = (NoOp, s')"
proof -
  from assms have args: "titleArg \<noteq> []" "yearArg \<noteq> []"
    by (auto simp: mergeDuplicates_def)
  from mergeDuplicates_Merged [OF assms]
  have "length (merge_movies s' titleArg yearArg) \<le> 1"
    by (intro merged_group_small [where s = s and p = p and avg = avg and cnt = cnt]) simp_all
  then have "length (merge_movies s' titleArg yearArg) < 2" by simp
  with args show ?thesis
    by (simp add: mergeDuplicates_def Let_def)
qed

theorem C6_merge_idempotent_witness:
  "mergeDuplicates None scenario_B ''Alpha'' ''1999'' = (Merged 10 2 (Num (11 / 3)) 3, scenario_B_merged) \<and>
   mergeDuplicates None scenario_B_merged ''Alpha'' ''1999'' = (NoOp, scenario_B_merged)"
proof -
  have run: "mergeDuplicates None scenario_B ''Alpha'' ''1999'' =
               (Merged 10 2 (Num (11 / 3)) 3, scenario_B_merged)"
    by code_simp
  from C6_merge_idempotent [OF run, of None] run show ?thesis by simp
qed

text \<open>
  Claim C10, the frame of the merge: every run, committed or aborted, leaves the \<open>tags\<close> and
  \<open>links\<close> collections as they were; after a committed run no movie document has the
  \<open>movieId\<close> of a duplicate, so a tag or link of a duplicate refers to a movie that is gone.
\<close>

theorem C10_merge_frame:
  "tags (snd (mergeDuplicates fault s titleArg yearArg)) = tags s \<and>
   links (snd (mergeDuplicates fault s titleArg yearArg)) = links s \<and>
   (\<forall>p n avg cnt s'. mergeDuplicates fault s titleArg yearArg = (Merged p n avg cnt, s') \<longrightarrow>
      (\<forall>d \<in> set (merge_duplicateMovieIds s titleArg yearArg).
          coll_findOne (\<lambda>m. movieId m = d) (movies s') = None))"
proof -
  have "coll_findOne (\<lambda>m. movieId m = d) (movies s') = None"
    if run: "mergeDuplicates fault s titleArg yearArg = (Merged p n avg cnt, s')"
      and d: "d \<in> set (merge_duplicateMovieIds s titleArg yearArg)"
    for p n avg cnt s' d
  proof -
    from mergeDuplicates_Merged [OF run]
    have "movies s' = coll_deleteMany (\<lambda>m. movieId m \<in> set (merge_duplicateMovieIds s titleArg yearArg))
                   (coll_updateOne (\<lambda>m. movieId m = p)
                      (\<lambda>m. m\<lparr>averageRating := avg, ratingCount := cnt\<rparr>) (movies s))"
      by simp
    then show ?thesis
      using coll_findOne_deleteMany [of "\<lambda>k. k \<in> set (merge_duplicateMovieIds s titleArg yearArg)" d movieId] d
      by simp
  qed
  with mergeDuplicates_frame [of fault s titleArg yearArg] show ?thesis by blast
qed

theorem C10_merge_frame_witness:
  "coll_find (\<lambda>g. t_movieId g = 11) (tags (snd (mergeDuplicates None scenario_B ''Alpha'' ''1999''))) =
     [\<lparr>t_userId = 2, t_movieId = 11, t_tag = ''space'', t_timestamp = 0\<rparr>] \<and>
   coll_findOne (\<lambda>l. l_movieId l = 11) (links (snd (mergeDuplicates None scenario_B ''Alpha'' ''1999''))) =
     Some \<lparr>l_movieId = 11, l_imdbId = Some ''0114709'', l_tmdbId = Some 862\<rparr> \<and>
   coll_findOne (\<lambda>m. movieId m = 11) (movies (snd (mergeDuplicates None scenario_B ''Alpha'' ''1999''))) = None"
proof -
  have run: "mergeDuplicates None scenario_B ''Alpha'' ''1999'' =
               (Merged 10 2 (Num (11 / 3)) 3, scenario_B_merged)"
    by code_simp
  have d: "11 \<in> set (merge_duplicateMovieIds scenario_B ''Alpha'' ''1999'')"
    by code_simp
  have t: "coll_find (\<lambda>g. t_movieId g = 11) (tags scenario_B) =
     [\<lparr>t_userId = 2, t_movieId = 11, t_tag = ''space'', t_timestamp = 0\<rparr>]"
    by code_simp
  have l: "coll_findOne (\<lambda>l. l_movieId l = 11) (links scenario_B) =
     Some \<lparr>l_movieId = 11, l_imdbId = Some ''0114709'', l_tmdbId = Some 862\<rparr>"
    by code_simp
  from C10_merge_frame [of None scenario_B "''Alpha''" "''1999''"] run d t l
  show ?thesis by simp
qed

text \<open>
  Claim C2, merge conservation, on the two movies of "Alpha (1999)": the merge commits, the
  three rating events are bound to movie 10, none lost and none duplicated, and the pair
  stored on movie 10 has the count 3 and the average 11/3, where the aggregate rounded to
  two decimals over the same events is 3.67. The conservation of the events and of the
  count holds in general (\<open>mergeDuplicates_conservation\<close>); the average is the part that
  departs.
\<close>

theorem C2_scenario_B_average_unrounded:
  "mergeDuplicates None scenario_B ''Alpha'' ''1999'' = (Merged 10 2 (Num (11 / 3)) 3, scenario_B_merged) \<and>
   map r_id (ratings_of 10 scenario_B_merged) = [1, 2, 3] \<and>
   stored_aggregate 10 scenario_B_merged = Some (Num (11 / 3), 3) \<and>
   rate_aggregate (ratings_of 10 scenario_B_merged) = (Num (367 / 100), 3)"
  by code_simp

text \<open>
  Claim C5 says that a merge which fails after the ratings were moved and before the commit
  leaves the database as it was. On "Alpha (1999)", when the update of the primary movie
  throws, the run ends with "Transaction aborted" and the two ratings of movie 11 stay bound
  to movie 10: the database differs from the one before the call.
\<close>

theorem C5_abort_keeps_moved_ratings:
  "mergeDuplicates (Some UpdatePrimary) scenario_B ''Alpha'' ''1999'' =
     (Aborted UpdatePrimary, scenario_B_aborted) \<and>
   ratings_of 11 scenario_B = [mk_rating 2 2 11 3, mk_rating 3 3 11 3] \<and>
   ratings_of 11 scenario_B_aborted = [] \<and>
   scenario_B_aborted \<noteq> scenario_B"
  by code_simp

text \<open>
  Claim C7 says that \<open>findDuplicates\<close> reports exactly the movies the merge locates for the
  same title and year. The script of \<open>findDuplicates\<close> does not compile, so a run reports
  nothing; on the two movies of "Alpha (1999)" the merge locates both.
\<close>

theorem C7_findDuplicates_differs:
  "findDuplicates scenario_B ''Alpha'' ''1999'' = Inl SyntaxError \<and>
   reported (findDuplicates scenario_B ''Alpha'' ''1999'') = [] \<and>
   merge_movies scenario_B ''Alpha'' ''1999'' =
     [mk_movie 10 ''Alpha (1999)'' (Some 1999) (Num 5) 1,
      mk_movie 11 ''Alpha (1999)'' (Some 1999) (Num 3) 2] \<and>
   set (reported (findDuplicates scenario_B ''Alpha'' ''1999'')) \<noteq>
   set (merge_movies scenario_B ''Alpha'' ''1999'')"
  by code_simp

end
